theory Spec2Isabelle
  imports Main "HOL-Library.Sublist"
begin

section \<open>The custom-domain API route: a shallow embedding\<close>

text \<open>
  The route module exports the handlers \<open>POST\<close>, \<open>PATCH\<close> and \<open>DELETE\<close> for
  \<open>/domains\<close>, built on \<open>ensureUser\<close>, \<open>normalizeHostname\<close>,
  \<open>createCustomHostname\<close> and \<open>fetchCustomHostnameStatus\<close>. Each handler is
  embedded as a function from the request and the world before the call to the
  response and the world after it. The world holds the two tables the handlers
  touch and the trace of calls made to the two remote services, so that
  "the provider is not contacted" is a statement about the trace. What the remote
  services answer is an input (\<open>env\<close>). A thrown exception is the \<open>Inl\<close> of a sum
  carrying the message, caught where the source catches it.
\<close>

subsection \<open>JavaScript values and strings\<close>

text \<open>
  A nullable string (\<open>undefined\<close>, \<open>null\<close> or a string) is a \<open>string option\<close>.
  JavaScript's truthiness test, used by \<open>!x\<close>, \<open>x || y\<close> and \<open>x ? a : b\<close>,
  is false on \<open>undefined\<close>, \<open>null\<close> and the empty string.
  Strings are modelled over ASCII: \<open>toLowerCase\<close> maps A..Z to a..z and \<open>trim\<close>
  removes the ASCII white space.
\<close>

definition truthy :: "string option \<Rightarrow> bool" where
  "truthy v = (case v of None \<Rightarrow> False | Some s \<Rightarrow> s \<noteq> [])"

text \<open>\<open>a || b\<close> on nullable strings.\<close>

definition js_or :: "string option \<Rightarrow> string option \<Rightarrow> string option" where
  "js_or a b = (if truthy a then a else b)"

text \<open>\<open>a ?? b\<close> on nullable strings: only \<open>null\<close>/\<open>undefined\<close> falls through.\<close>

definition js_nullish :: "string option \<Rightarrow> string option \<Rightarrow> string option" where
  "js_nullish a b = (case a of None \<Rightarrow> b | Some s \<Rightarrow> Some s)"

definition lower_char :: "char \<Rightarrow> char" where
  "lower_char c =
     (let n = (of_char c :: nat)
      in if 65 \<le> n \<and> n \<le> 90 then char_of (n + 32) else c)"

definition toLowerCase :: "string \<Rightarrow> string" where
  "toLowerCase s = map lower_char s"

definition is_space :: "char \<Rightarrow> bool" where
  "is_space c = (c \<in> set [CHR '' '', CHR 0x09, CHR 0x0A, CHR 0x0B, CHR 0x0C, CHR 0x0D])"

definition trim :: "string \<Rightarrow> string" where
  "trim s = rev (dropWhile is_space (rev (dropWhile is_space s)))"

text \<open>\<open>s.split(" ")\<close>: the pieces between single spaces; the empty string gives one empty piece.\<close>

fun js_split_space :: "string \<Rightarrow> string list" where
  "js_split_space [] = [[]]"
| "js_split_space (c # cs) =
     (if c = CHR '' '' then [] # js_split_space cs
      else (case js_split_space cs of
              [] \<Rightarrow> [[c]]
            | p # ps \<Rightarrow> (c # p) # ps))"

subsection \<open>Hostname normalisation\<close>

text \<open>\<open>.replace(/^https?:\/\//, "")\<close>: one protocol prefix is removed from the front.\<close>

definition has_protocol :: "string \<Rightarrow> bool" where
  "has_protocol s = (prefix ''https://'' s \<or> prefix ''http://'' s)"

definition strip_protocol :: "string \<Rightarrow> string" where
  "strip_protocol s =
     (if prefix ''https://'' s then drop 8 s
      else if prefix ''http://'' s then drop 7 s
      else s)"

text \<open>\<open>.replace(/\/+$/, "")\<close>: the run of slashes at the end is removed.\<close>

definition strip_trailing_slashes :: "string \<Rightarrow> string" where
  "strip_trailing_slashes s = rev (dropWhile (\<lambda>c. c = CHR ''/'') (rev s))"

definition normalizeHostname :: "string \<Rightarrow> string" where
  "normalizeHostname h = strip_trailing_slashes (strip_protocol (toLowerCase h))"

subsection \<open>Requests, responses, configuration\<close>

record payload =
  p_siteId :: "string option"
  p_hostname :: "string option"
  p_id :: "string option"

text \<open>
  \<open>authorization\<close> is what \<open>req.headers.get("authorization")\<close> returns;
  \<open>body\<close> is \<open>None\<close> when \<open>req.json()\<close> rejects.
\<close>

record request =
  authorization :: "string option"
  body :: "payload option"

text \<open>
  \<open>process.env\<close>, read once when the module is loaded. The CNAME target falls
  back to a fixed edge hostname.
\<close>

record config =
  CLOUDFLARE_API_TOKEN :: "string option"
  CLOUDFLARE_ZONE_ID :: "string option"
  env_CLOUDFLARE_CNAME_TARGET :: "string option"

text \<open>\<open>a || d\<close> with a string default \<open>d\<close>.\<close>

definition or_default :: "string option \<Rightarrow> string \<Rightarrow> string" where
  "or_default a d = (case a of None \<Rightarrow> d | Some s \<Rightarrow> if s = [] then d else s)"

definition CLOUDFLARE_CNAME_TARGET :: "config \<Rightarrow> string" where
  "CLOUDFLARE_CNAME_TARGET cfg = or_default (env_CLOUDFLARE_CNAME_TARGET cfg) ''edge.simplhost.com''"

subsection \<open>The provider's replies\<close>

record validation_record =
  cname_target :: "string option"
  txt_value :: "string option"
  http_url :: "string option"

record cf_ssl =
  ssl_status :: "string option"
  ssl_validation_records :: "validation_record list option"

record cf_result =
  result_id :: "string option"
  result_ssl :: "cf_ssl option"

text \<open>
  A call to the provider either throws (\<open>fetch\<close> or \<open>res.json()\<close> rejects, with a
  message), or answers with \<open>res.ok\<close>, the first error message of the body
  (\<open>json?.errors?.[0]?.message\<close>) and \<open>json?.result\<close>.
\<close>

datatype cf_reply =
  Throws string
| Reply bool "string option" "cf_result option"

datatype cf_call =
  CfCreate string
| CfFetchStatus string
| CfDelete string

text \<open>What \<open>createCustomHostname\<close> and \<open>fetchCustomHostnameStatus\<close> return.\<close>

record cf_status =
  cf_state :: string
  cf_verification_method :: "string option"
  cf_verification_value :: "string option"
  cf_validation_records :: "validation_record list"

record cf_created = cf_status +
  cf_id :: "string option"

subsection \<open>Tables and the world\<close>

record site =
  s_id :: string
  s_domain :: string
  s_user_id :: string

record domain =
  d_id :: string
  site_id :: string
  user_id :: string
  hostname :: string
  cf_custom_hostname_id :: "string option"
  status :: "string option"
  verification_method :: "string option"
  verification_value :: "string option"
  created_at :: string
  updated_at :: string

record world =
  domains :: "domain list"
  sites :: "site list"
  cf_calls :: "cf_call list"
  auth_calls :: "string list"

datatype store_op =
  SelectSite | SelectExisting | InsertDomain | SelectDomain | UpdateDomain | DeleteDomain

text \<open>
  The answers of the outside world during one request: the auth service
  (\<open>supabase.auth.getUser()\<close>: the user id, or \<open>None\<close> for an error or no user),
  the provider's reply to each kind of call, whether the record store reports an
  error on an operation, the id and timestamp the database gives a new row, and
  the clock read by \<open>new Date()\<close>.
\<close>

record env =
  auth_getUser :: "string \<Rightarrow> string option"
  cf_create_reply :: cf_reply
  cf_status_reply :: cf_reply
  cf_delete_throws :: bool
  store_error :: "store_op \<Rightarrow> bool"
  new_row_id :: string
  db_now :: string
  now :: string

datatype json_body =
  Err string
| Success domain "validation_record list" string
| SuccessOnly

type_synonym response = "nat \<times> json_body"

subsection \<open>Credential guard\<close>

definition getTokenFromRequest :: "request \<Rightarrow> string option" where
  "getTokenFromRequest req =
     (let header = or_default (authorization req) [];
          token = (case js_split_space header of
                     _ # t # _ \<Rightarrow> Some t
                   | _ \<Rightarrow> None)
      in js_or token None)"

text \<open>
  \<open>ensureUser\<close> returns the error \<open>Unauthorized\<close> or the user (here the user's
  id; the scoped client is the world itself). The auth service is called only
  when a token was found.
\<close>

definition ensureUser :: "env \<Rightarrow> request \<Rightarrow> world \<Rightarrow> (string + string) \<times> world" where
  "ensureUser e req w =
     (case getTokenFromRequest req of
        None \<Rightarrow> (Inl ''Unauthorized'', w)
      | Some token \<Rightarrow>
          (let w' = w\<lparr>auth_calls := auth_calls w @ [token]\<rparr>
           in case auth_getUser e token of
                None \<Rightarrow> (Inl ''Unauthorized'', w')
              | Some user \<Rightarrow> (Inr user, w')))"

subsection \<open>Edge provider client\<close>

definition empty_validation_record :: validation_record where
  "empty_validation_record = \<lparr>cname_target = None, txt_value = None, http_url = None\<rparr>"

text \<open>
  \<open>Array.isArray(ssl.validation_records) ? ssl.validation_records : []\<close> after
  \<open>result = json?.result || {}\<close> and \<open>ssl = result.ssl || {}\<close>.
\<close>

definition validation_records_of :: "cf_result option \<Rightarrow> validation_record list" where
  "validation_records_of result =
     (case Option.bind result result_ssl of
        None \<Rightarrow> []
      | Some ssl \<Rightarrow> (case ssl_validation_records ssl of None \<Rightarrow> [] | Some rs \<Rightarrow> rs))"

definition ssl_status_of :: "cf_result option \<Rightarrow> string option" where
  "ssl_status_of result = Option.bind (Option.bind result result_ssl) ssl_status"

definition createCustomHostname ::
  "config \<Rightarrow> env \<Rightarrow> string \<Rightarrow> world \<Rightarrow> (string + cf_created) \<times> world" where
  "createCustomHostname cfg e host w =
     (if \<not> truthy (CLOUDFLARE_API_TOKEN cfg) \<or> \<not> truthy (CLOUDFLARE_ZONE_ID cfg)
      then (Inl ''Cloudflare environment variables are not configured'', w)
      else
        let w' = w\<lparr>cf_calls := cf_calls w @ [CfCreate host]\<rparr>
        in case cf_create_reply e of
             Throws msg \<Rightarrow> (Inl msg, w')
           | Reply ok err result \<Rightarrow>
               if \<not> ok then (Inl (or_default err ''Cloudflare create failed''), w')
               else
                 let validationRecords = validation_records_of result;
                     rec = (case validationRecords of
                              [] \<Rightarrow> empty_validation_record
                            | r # _ \<Rightarrow> r);
                     verification =
                       js_or (js_or (js_or (cname_target rec) (txt_value rec)) (http_url rec)) None
                 in (Inr \<lparr>cf_state = or_default (ssl_status_of result) ''pending'',
                          cf_verification_method =
                            (if truthy (cname_target rec) then Some ''cname''
                             else if truthy (txt_value rec) then Some ''txt''
                             else if truthy (http_url rec) then Some ''http''
                             else None),
                          cf_verification_value = verification,
                          cf_validation_records = validationRecords,
                          cf_id = Option.bind result result_id\<rparr>, w'))"

definition fetchCustomHostnameStatus ::
  "config \<Rightarrow> env \<Rightarrow> string \<Rightarrow> world \<Rightarrow> (string + cf_status) \<times> world" where
  "fetchCustomHostnameStatus cfg e customHostnameId w =
     (if \<not> truthy (CLOUDFLARE_API_TOKEN cfg) \<or> \<not> truthy (CLOUDFLARE_ZONE_ID cfg)
      then (Inl ''Cloudflare environment variables are not configured'', w)
      else
        let w' = w\<lparr>cf_calls := cf_calls w @ [CfFetchStatus customHostnameId]\<rparr>
        in case cf_status_reply e of
             Throws msg \<Rightarrow> (Inl msg, w')
           | Reply ok err result \<Rightarrow>
               if \<not> ok then (Inl (or_default err ''Cloudflare fetch failed''), w')
               else
                 let validationRecords = validation_records_of result;
                     rec = (case validationRecords of
                              [] \<Rightarrow> empty_validation_record
                            | r # _ \<Rightarrow> r);
                     verification =
                       js_or (js_or (js_or (cname_target rec) (txt_value rec)) (http_url rec)) None
                 in (Inr \<lparr>cf_state = or_default (ssl_status_of result) ''pending'',
                          cf_verification_method =
                            (if truthy (cname_target rec) then Some ''cname''
                             else if truthy (txt_value rec) then Some ''txt''
                             else if truthy (http_url rec) then Some ''http''
                             else None),
                          cf_verification_value = verification,
                          cf_validation_records = validationRecords\<rparr>, w'))"

text \<open>
  The provider call of the delete flow, written inline in \<open>DELETE\<close>: the returned
  flag says whether \<open>fetch\<close> threw. The response of the provider is not read.
\<close>

definition cf_delete_fetch :: "env \<Rightarrow> string \<Rightarrow> world \<Rightarrow> bool \<times> world" where
  "cf_delete_fetch e customHostnameId w =
     (cf_delete_throws e, w\<lparr>cf_calls := cf_calls w @ [CfDelete customHostnameId]\<rparr>)"

subsection \<open>Domain record store\<close>

text \<open>
  Modelled from the spec: the record store is the hosted database behind the
  Supabase client, which is not part of the repository. Its operations are those
  of the spec's Domain Record Store: filtered selects, an insert that the
  hostname uniqueness constraint can reject, and updates and deletes scoped by
  id and user. \<open>maybeSingle\<close> yields no row, the one row, or an error when the
  filter matches several rows. Any operation can also report an error, as
  \<open>store_error\<close> says, and then changes nothing.
\<close>

datatype 'a query = QueryError | Row "'a option"

definition maybeSingle :: "'a list \<Rightarrow> 'a query" where
  "maybeSingle rows = (case rows of [] \<Rightarrow> Row None | [r] \<Rightarrow> Row (Some r) | _ \<Rightarrow> QueryError)"

definition select_site :: "env \<Rightarrow> string \<Rightarrow> string \<Rightarrow> world \<Rightarrow> site query" where
  "select_site e siteId user w =
     (if store_error e SelectSite then QueryError
      else maybeSingle (filter (\<lambda>s. s_id s = siteId \<and> s_user_id s = user) (sites w)))"

definition select_by_hostname :: "env \<Rightarrow> string \<Rightarrow> world \<Rightarrow> domain query" where
  "select_by_hostname e host w =
     (if store_error e SelectExisting then QueryError
      else maybeSingle (filter (\<lambda>r. hostname r = host) (domains w)))"

definition select_domain :: "env \<Rightarrow> string \<Rightarrow> string \<Rightarrow> world \<Rightarrow> domain query" where
  "select_domain e i user w =
     (if store_error e SelectDomain then QueryError
      else maybeSingle (filter (\<lambda>r. d_id r = i \<and> user_id r = user) (domains w)))"

definition insert_domain :: "env \<Rightarrow> domain \<Rightarrow> world \<Rightarrow> domain query \<times> world" where
  "insert_domain e row w =
     (if store_error e InsertDomain \<or> (\<exists>r \<in> set (domains w). hostname r = hostname row)
      then (QueryError, w)
      else (Row (Some row), w\<lparr>domains := domains w @ [row]\<rparr>))"

definition update_domain ::
  "env \<Rightarrow> string \<Rightarrow> string \<Rightarrow> (domain \<Rightarrow> domain) \<Rightarrow> world \<Rightarrow> domain query \<times> world" where
  "update_domain e i user patch w =
     (if store_error e UpdateDomain then (QueryError, w)
      else
        let ds = map (\<lambda>r. if d_id r = i \<and> user_id r = user then patch r else r) (domains w)
        in (maybeSingle (filter (\<lambda>r. d_id r = i \<and> user_id r = user) ds), w\<lparr>domains := ds\<rparr>))"

text \<open>The flag returned is \<open>deleteError\<close>.\<close>

definition delete_domain :: "env \<Rightarrow> string \<Rightarrow> string \<Rightarrow> world \<Rightarrow> bool \<times> world" where
  "delete_domain e i user w =
     (if store_error e DeleteDomain then (True, w)
      else (False, w\<lparr>domains := filter (\<lambda>r. \<not> (d_id r = i \<and> user_id r = user)) (domains w)\<rparr>))"

subsection \<open>The handlers\<close>

text \<open>\<open>body?.f?.trim()\<close>\<close>

definition payload_field :: "(payload \<Rightarrow> string option) \<Rightarrow> request \<Rightarrow> string option" where
  "payload_field f req = map_option trim (Option.bind (body req) f)"

definition POST :: "config \<Rightarrow> env \<Rightarrow> request \<Rightarrow> world \<Rightarrow> response \<times> world" where
  "POST cfg e req w =
     (case ensureUser e req w of
        (Inl err, w1) \<Rightarrow> ((401, Err err), w1)
      | (Inr user, w1) \<Rightarrow>
          let siteId = payload_field p_siteId req;
              rawHostname = payload_field p_hostname req
          in if \<not> truthy siteId \<or> \<not> truthy rawHostname
             then ((400, Err ''Missing siteId or hostname''), w1)
             else
               let host = normalizeHostname (or_default rawHostname [])
               in (case select_site e (or_default siteId []) user w1 of
                    QueryError \<Rightarrow> ((404, Err ''Site not found''), w1)
                  | Row None \<Rightarrow> ((404, Err ''Site not found''), w1)
                  | Row (Some st) \<Rightarrow>
                      (case select_by_hostname e host w1 of
                         QueryError \<Rightarrow> ((500, Err ''Failed to validate domain''), w1)
                       | Row (Some existing) \<Rightarrow> ((409, Err ''Hostname already in use''), w1)
                       | Row None \<Rightarrow>
                           (case createCustomHostname cfg e host w1 of
                              (Inl msg, w2) \<Rightarrow>
                                ((500, Err (or_default (Some msg) ''Failed to create domain'')), w2)
                            | (Inr cf, w2) \<Rightarrow>
                                (case insert_domain e
                                        \<lparr>d_id = new_row_id e,
                                         site_id = s_id st,
                                         user_id = user,
                                         hostname = host,
                                         cf_custom_hostname_id = cf_id cf,
                                         status = Some (or_default (Some (cf_state cf)) ''pending''),
                                         verification_method = cf_verification_method cf,
                                         verification_value = cf_verification_value cf,
                                         created_at = db_now e,
                                         updated_at = db_now e\<rparr> w2 of
                                   (Row (Some inserted), w3) \<Rightarrow>
                                     ((200, Success inserted (cf_validation_records cf)
                                              (CLOUDFLARE_CNAME_TARGET cfg)), w3)
                                 | (_, w3) \<Rightarrow>
                                     ((500, Err ''Created in Cloudflare but failed to save to database''),
                                      w3))))))"

definition PATCH :: "config \<Rightarrow> env \<Rightarrow> request \<Rightarrow> world \<Rightarrow> response \<times> world" where
  "PATCH cfg e req w =
     (case ensureUser e req w of
        (Inl err, w1) \<Rightarrow> ((401, Err err), w1)
      | (Inr user, w1) \<Rightarrow>
          let idv = payload_field p_id req
          in if \<not> truthy idv then ((400, Err ''Missing domain id''), w1)
             else
               let i = or_default idv []
               in (case select_domain e i user w1 of
                    QueryError \<Rightarrow> ((404, Err ''Domain not found''), w1)
                  | Row None \<Rightarrow> ((404, Err ''Domain not found''), w1)
                  | Row (Some domain) \<Rightarrow>
                      if \<not> truthy (cf_custom_hostname_id domain)
                      then ((400, Err ''Missing Cloudflare mapping for this domain''), w1)
                      else
                        (case fetchCustomHostnameStatus cfg e
                                (or_default (cf_custom_hostname_id domain) []) w1 of
                           (Inl msg, w2) \<Rightarrow>
                             ((500, Err (or_default (Some msg) ''Failed to refresh domain'')), w2)
                         | (Inr cf, w2) \<Rightarrow>
                             (case update_domain e i user
                                     (\<lambda>r. r\<lparr>status := js_or (Some (cf_state cf)) (status domain),
                                            verification_method :=
                                              js_nullish (cf_verification_method cf)
                                                (verification_method domain),
                                            verification_value :=
                                              js_nullish (cf_verification_value cf)
                                                (verification_value domain),
                                            updated_at := now e\<rparr>) w2 of
                                (Row (Some updated), w3) \<Rightarrow>
                                  ((200, Success updated (cf_validation_records cf)
                                           (CLOUDFLARE_CNAME_TARGET cfg)), w3)
                              | (_, w3) \<Rightarrow>
                                  ((500, Err ''Failed to update domain status''), w3)))))"

definition DELETE :: "config \<Rightarrow> env \<Rightarrow> request \<Rightarrow> world \<Rightarrow> response \<times> world" where
  "DELETE cfg e req w =
     (case ensureUser e req w of
        (Inl err, w1) \<Rightarrow> ((401, Err err), w1)
      | (Inr user, w1) \<Rightarrow>
          let idv = payload_field p_id req
          in if \<not> truthy idv then ((400, Err ''Missing domain id''), w1)
             else
               let i = or_default idv []
               in (case select_domain e i user w1 of
                    QueryError \<Rightarrow> ((404, Err ''Domain not found''), w1)
                  | Row None \<Rightarrow> ((404, Err ''Domain not found''), w1)
                  | Row (Some domain) \<Rightarrow>
                      let w2 = (if truthy (cf_custom_hostname_id domain)
                                   \<and> truthy (CLOUDFLARE_API_TOKEN cfg)
                                   \<and> truthy (CLOUDFLARE_ZONE_ID cfg)
                                then snd (cf_delete_fetch e
                                            (or_default (cf_custom_hostname_id domain) []) w1)
                                else w1)
                      in (case delete_domain e i user w2 of
                            (True, w3) \<Rightarrow> ((500, Err ''Failed to delete domain''), w3)
                          | (False, w3) \<Rightarrow> ((200, SuccessOnly), w3))))"

subsection \<open>What the handlers write, stated directly\<close>

text \<open>
  The verification descriptor (method, value) read off a list of validation
  records by looking at its first record only, with the priority cname, txt,
  http over the fields of that record.
\<close>

fun descriptor_of_first_record :: "validation_record list \<Rightarrow> string option \<times> string option" where
  "descriptor_of_first_record [] = (None, None)"
| "descriptor_of_first_record (r # rs) =
     (if truthy (cname_target r) then (Some ''cname'', cname_target r)
      else if truthy (txt_value r) then (Some ''txt'', txt_value r)
      else if truthy (http_url r) then (Some ''http'', http_url r)
      else (None, None))"

text \<open>
  The record a refresh leaves behind: the provider's status, the provider's
  verification method and value where the provider reports them and the stored
  ones where it does not, and the new timestamp.
\<close>

definition refreshed :: "env \<Rightarrow> cf_status \<Rightarrow> domain \<Rightarrow> domain" where
  "refreshed e cf domain =
     domain\<lparr>status := Some (cf_state cf),
            verification_method :=
              (case cf_verification_method cf of
                 None \<Rightarrow> verification_method domain
               | Some m \<Rightarrow> Some m),
            verification_value :=
              (case cf_verification_value cf of
                 None \<Rightarrow> verification_value domain
               | Some v \<Rightarrow> Some v),
            updated_at := now e\<rparr>"

subsection \<open>Example inputs\<close>

text \<open>
  A configured and an unconfigured process, one user \<open>u1\<close> whose token is
  \<open>good\<close>, one site and one stored domain, used to run the handlers on concrete
  requests.
\<close>

definition ex_config :: config where
  "ex_config = \<lparr>CLOUDFLARE_API_TOKEN = Some ''tok'', CLOUDFLARE_ZONE_ID = Some ''zone'',
                 env_CLOUDFLARE_CNAME_TARGET = None\<rparr>"

definition ex_config_unset :: config where
  "ex_config_unset = \<lparr>CLOUDFLARE_API_TOKEN = None, CLOUDFLARE_ZONE_ID = None,
                       env_CLOUDFLARE_CNAME_TARGET = None\<rparr>"

definition ex_env :: "cf_reply \<Rightarrow> env" where
  "ex_env reply =
     \<lparr>auth_getUser = (\<lambda>t. if t = ''good'' then Some ''u1'' else None),
      cf_create_reply = reply,
      cf_status_reply = reply,
      cf_delete_throws = True,
      store_error = (\<lambda>_. False),
      new_row_id = ''d2'',
      db_now = ''t1'',
      now = ''t2''\<rparr>"

definition ex_site :: site where
  "ex_site = \<lparr>s_id = ''S1'', s_domain = ''s1.simplhost.com'', s_user_id = ''u1''\<rparr>"

definition ex_domain :: "string option \<Rightarrow> domain" where
  "ex_domain cfid =
     \<lparr>d_id = ''d1'', site_id = ''S1'', user_id = ''u1'', hostname = ''example.com'',
      cf_custom_hostname_id = cfid, status = Some ''pending'',
      verification_method = Some ''cname'', verification_value = Some ''dv.provider.net'',
      created_at = ''t0'', updated_at = ''t0''\<rparr>"

definition ex_world :: "domain list \<Rightarrow> world" where
  "ex_world ds = \<lparr>domains = ds, sites = [ex_site], cf_calls = [], auth_calls = []\<rparr>"

definition ex_request :: "string option \<Rightarrow> payload \<Rightarrow> request" where
  "ex_request header p = \<lparr>authorization = header, body = Some p\<rparr>"

definition ex_id_payload :: payload where
  "ex_id_payload = \<lparr>p_siteId = None, p_hostname = None, p_id = Some ''d1''\<rparr>"

definition ex_create_payload :: "string \<Rightarrow> payload" where
  "ex_create_payload h = \<lparr>p_siteId = Some ''S1'', p_hostname = Some h, p_id = None\<rparr>"

text \<open>Provider replies: a success without any field, and one with the given validation records.\<close>

definition ex_reply_records :: "validation_record list \<Rightarrow> cf_reply" where
  "ex_reply_records rs =
     Reply True None
       (Some \<lparr>result_id = Some ''cf1'',
              result_ssl = Some \<lparr>ssl_status = Some ''pending'',
                                 ssl_validation_records = Some rs\<rparr>\<rparr>)"

definition ex_reply_no_id :: cf_reply where
  "ex_reply_no_id =
     Reply True None
       (Some \<lparr>result_id = None,
              result_ssl = Some \<lparr>ssl_status = Some ''pending'',
                                 ssl_validation_records = Some []\<rparr>\<rparr>)"

definition ex_txt_record :: validation_record where
  "ex_txt_record = \<lparr>cname_target = None, txt_value = Some ''txt-proof'', http_url = None\<rparr>"

definition ex_cname_record :: validation_record where
  "ex_cname_record = \<lparr>cname_target = Some ''dv.provider.net'', txt_value = None, http_url = None\<rparr>"

section \<open>Properties\<close>

subsection \<open>Hostname normalisation\<close>

lemma lower_char_idem: "lower_char (lower_char c) = lower_char c"
  by (simp add: lower_char_def Let_def)

lemma toLowerCase_fixed: "\<forall>c \<in> set s. lower_char c = c \<Longrightarrow> toLowerCase s = s"
  by (simp add: toLowerCase_def map_idI)

lemma set_strip_protocol: "set (strip_protocol s) \<subseteq> set s"
  by (auto simp: strip_protocol_def dest: in_set_dropD)

lemma set_strip_trailing_slashes: "set (strip_trailing_slashes s) \<subseteq> set s"
  by (auto simp: strip_trailing_slashes_def dest: set_dropWhileD)

lemma strip_trailing_slashes_idem:
  "strip_trailing_slashes (strip_trailing_slashes s) = strip_trailing_slashes s"
  by (simp add: strip_trailing_slashes_def)

lemma length_strip_trailing_slashes: "length (strip_trailing_slashes s) \<le> length s"
  using length_dropWhile_le [of "\<lambda>c. c = CHR ''/''" "rev s"]
  by (simp add: strip_trailing_slashes_def)

lemma strip_protocol_id: "\<not> has_protocol s \<Longrightarrow> strip_protocol s = s"
  by (simp add: has_protocol_def strip_protocol_def)

lemma strip_protocol_shorter: "has_protocol s \<Longrightarrow> length (strip_protocol s) < length s"
  by (auto simp: has_protocol_def strip_protocol_def prefix_def)

lemma toLowerCase_normalizeHostname: "toLowerCase (normalizeHostname x) = normalizeHostname x"
proof (rule toLowerCase_fixed, rule ballI)
  fix c assume "c \<in> set (normalizeHostname x)"
  then have "c \<in> set (toLowerCase x)"
    using set_strip_protocol set_strip_trailing_slashes
    unfolding normalizeHostname_def by blast
  then show "lower_char c = c"
    by (auto simp: toLowerCase_def lower_char_idem)
qed

lemma normalizeHostname_again:
  "normalizeHostname (normalizeHostname x) = strip_trailing_slashes (strip_protocol (normalizeHostname x))"
  by (simp add: normalizeHostname_def[of "normalizeHostname x"] toLowerCase_normalizeHostname)

text \<open>
  C4, as amended. The input \<open>"HTTPS://Example.com/"\<close> normalises to
  \<open>"example.com"\<close>. Normalising a second time changes nothing exactly when the
  first result does not itself begin with \<open>http://\<close> or \<open>https://\<close>: only one
  protocol prefix is removed per call, so a doubled prefix survives the first call.
\<close>

theorem normalizeHostname_idempotent_iff:
  "normalizeHostname ''HTTPS://Example.com/'' = ''example.com'' \<and>
   (normalizeHostname (normalizeHostname x) = normalizeHostname x
      \<longleftrightarrow> \<not> has_protocol (normalizeHostname x))"
proof (intro conjI iffI)
  show "normalizeHostname ''HTTPS://Example.com/'' = ''example.com''"
    by code_simp
next
  assume eq: "normalizeHostname (normalizeHostname x) = normalizeHostname x"
  show "\<not> has_protocol (normalizeHostname x)"
  proof
    assume "has_protocol (normalizeHostname x)"
    then have "length (strip_protocol (normalizeHostname x)) < length (normalizeHostname x)"
      by (rule strip_protocol_shorter)
    moreover have "length (normalizeHostname (normalizeHostname x))
        \<le> length (strip_protocol (normalizeHostname x))"
      by (simp add: normalizeHostname_again length_strip_trailing_slashes)
    ultimately show False using eq by simp
  qed
next
  assume "\<not> has_protocol (normalizeHostname x)"
  then have "normalizeHostname (normalizeHostname x) = strip_trailing_slashes (normalizeHostname x)"
    by (simp add: normalizeHostname_again strip_protocol_id)
  also have "\<dots> = normalizeHostname x"
    by (simp add: normalizeHostname_def strip_trailing_slashes_idem)
  finally show "normalizeHostname (normalizeHostname x) = normalizeHostname x" .
qed

text \<open>C4, witness: the spec's own example is an input without a doubled prefix.\<close>

theorem normalizeHostname_idempotent_iff_witness:
  "\<not> has_protocol (normalizeHostname ''HTTPS://Example.com/'') \<and>
   normalizeHostname (normalizeHostname ''HTTPS://Example.com/'') = normalizeHostname ''HTTPS://Example.com/''"
proof -
  have "\<not> has_protocol (normalizeHostname ''HTTPS://Example.com/'')"
    by code_simp
  then show ?thesis
    using normalizeHostname_idempotent_iff [of "''HTTPS://Example.com/''"] by blast
qed

text \<open>
  C4, counterexample to idempotence on every input: \<open>"http://http://a"\<close> normalises
  to \<open>"http://a"\<close>, which normalises to \<open>"a"\<close>.
\<close>

theorem normalizeHostname_not_idempotent:
  "normalizeHostname (normalizeHostname ''http://http://a'') \<noteq> normalizeHostname ''http://http://a''"
  by code_simp


subsection \<open>Credential guard\<close>

lemma js_split_space_not_Nil: "js_split_space s \<noteq> []"
  by (induction s) (auto split: list.splits)

lemma js_split_space_scheme:
  "CHR '' '' \<notin> set scheme \<Longrightarrow>
   js_split_space (scheme @ CHR '' '' # rest) = scheme # js_split_space rest"
  by (induction scheme) auto

lemma js_split_space_no_space: "CHR '' '' \<notin> set s \<Longrightarrow> js_split_space s = [s]"
  by (induction s) auto

lemma hd_js_split_space: "hd (js_split_space s) = takeWhile (\<lambda>c. c \<noteq> CHR '' '') s"
  by (induction s) (auto split: list.splits simp: js_split_space_not_Nil)

lemma second_component:
  assumes "CHR '' '' \<notin> set scheme"
  shows "\<exists>ps. js_split_space (scheme @ CHR '' '' # rest)
           = scheme # takeWhile (\<lambda>c. c \<noteq> CHR '' '') rest # ps"
proof -
  obtain p ps where "js_split_space rest = p # ps"
    using js_split_space_not_Nil by (cases "js_split_space rest") auto
  moreover from this have "p = takeWhile (\<lambda>c. c \<noteq> CHR '' '') rest"
    using hd_js_split_space [of rest] by simp
  ultimately show ?thesis
    using assms by (simp add: js_split_space_scheme)
qed

lemma getToken_scheme:
  assumes "CHR '' '' \<notin> set scheme"
  shows "getTokenFromRequest \<lparr>authorization = Some (scheme @ CHR '' '' # rest), body = b\<rparr> =
     (if takeWhile (\<lambda>c. c \<noteq> CHR '' '') rest = [] then None
      else Some (takeWhile (\<lambda>c. c \<noteq> CHR '' '') rest))"
proof -
  obtain ps where "js_split_space (scheme @ CHR '' '' # rest)
           = scheme # takeWhile (\<lambda>c. c \<noteq> CHR '' '') rest # ps"
    using second_component [OF assms] by blast
  then show ?thesis
    by (simp add: getTokenFromRequest_def or_default_def js_or_def truthy_def)
qed

lemma getToken_no_space:
  "CHR '' '' \<notin> set h \<Longrightarrow> getTokenFromRequest \<lparr>authorization = Some h, body = b\<rparr> = None"
  by (simp add: getTokenFromRequest_def or_default_def js_or_def truthy_def js_split_space_no_space)

lemma getToken_no_header: "getTokenFromRequest \<lparr>authorization = None, body = b\<rparr> = None"
  by (simp add: getTokenFromRequest_def or_default_def js_or_def truthy_def)

lemma ensureUser_no_token:
  "getTokenFromRequest req = None \<Longrightarrow> ensureUser e req w = (Inl ''Unauthorized'', w)"
  by (simp add: ensureUser_def)

lemma ensureUser_token:
  "getTokenFromRequest req = Some t \<Longrightarrow>
   ensureUser e req w =
     ((case auth_getUser e t of None \<Rightarrow> Inl ''Unauthorized'' | Some u \<Rightarrow> Inr u),
      w\<lparr>auth_calls := auth_calls w @ [t]\<rparr>)"
  by (simp add: ensureUser_def Let_def split: option.splits)

lemma ensureUser_tables:
  "ensureUser e req w = (r, w1) \<Longrightarrow>
   domains w1 = domains w \<and> sites w1 = sites w \<and> cf_calls w1 = cf_calls w"
  by (auto simp: ensureUser_def Let_def split: option.splits)

text \<open>
  C9. The token is the second piece of the authorization header split at single
  spaces, whatever the first piece (the scheme word) is: \<open>"Basic xyz"\<close> gives
  \<open>xyz\<close>, and \<open>ensureUser\<close> passes the token to the auth service. A header
  without a space, a header whose second piece is empty, and a missing header
  give no token; then \<open>ensureUser\<close> answers \<open>Unauthorized\<close> and every handler
  answers 401, leaving the world, and with it the trace of auth calls, as it was.
\<close>

theorem token_is_second_component:
  "getTokenFromRequest \<lparr>authorization = Some ''Basic xyz'', body = b\<rparr> = Some ''xyz'' \<and>
   (CHR '' '' \<notin> set scheme \<longrightarrow>
      getTokenFromRequest \<lparr>authorization = Some (scheme @ CHR '' '' # rest), body = b\<rparr> =
        (if takeWhile (\<lambda>c. c \<noteq> CHR '' '') rest = [] then None
         else Some (takeWhile (\<lambda>c. c \<noteq> CHR '' '') rest))) \<and>
   (CHR '' '' \<notin> set h \<longrightarrow> getTokenFromRequest \<lparr>authorization = Some h, body = b\<rparr> = None) \<and>
   getTokenFromRequest \<lparr>authorization = None, body = b\<rparr> = None \<and>
   (getTokenFromRequest req = Some t \<longrightarrow>
      auth_calls (snd (ensureUser e req w)) = auth_calls w @ [t]) \<and>
   (getTokenFromRequest req = None \<longrightarrow>
      ensureUser e req w = (Inl ''Unauthorized'', w) \<and>
      POST cfg e req w = ((401, Err ''Unauthorized''), w) \<and>
      PATCH cfg e req w = ((401, Err ''Unauthorized''), w) \<and>
      DELETE cfg e req w = ((401, Err ''Unauthorized''), w))"
proof (intro conjI impI)
  show "getTokenFromRequest \<lparr>authorization = Some ''Basic xyz'', body = b\<rparr> = Some ''xyz''"
    using getToken_scheme [of "''Basic''" "''xyz''" b] by simp
next
  assume "getTokenFromRequest req = None"
  then have *: "ensureUser e req w = (Inl ''Unauthorized'', w)"
    by (rule ensureUser_no_token)
  show "ensureUser e req w = (Inl ''Unauthorized'', w)" by (rule *)
  show "POST cfg e req w = ((401, Err ''Unauthorized''), w)" by (simp add: POST_def *)
  show "PATCH cfg e req w = ((401, Err ''Unauthorized''), w)" by (simp add: PATCH_def *)
  show "DELETE cfg e req w = ((401, Err ''Unauthorized''), w)" by (simp add: DELETE_def *)
qed (simp_all add: getToken_scheme getToken_no_space getToken_no_header ensureUser_token)

text \<open>
  C9, witness: a doubled space gives an empty second piece, \<open>"Bearer"\<close> has no
  space, \<open>"Basic xyz"\<close> sends \<open>xyz\<close> to the auth service, and a request without a
  header is refused without an auth call.
\<close>

theorem token_is_second_component_witness:
  "getTokenFromRequest \<lparr>authorization = Some ''Token  abc'', body = None\<rparr> = None \<and>
   getTokenFromRequest \<lparr>authorization = Some ''Bearer'', body = None\<rparr> = None \<and>
   auth_calls (snd (ensureUser (ex_env (Throws []))
                      \<lparr>authorization = Some ''Basic xyz'', body = None\<rparr> (ex_world [])))
     = [''xyz''] \<and>
   POST ex_config (ex_env (Throws [])) \<lparr>authorization = None, body = None\<rparr> (ex_world [])
     = ((401, Err ''Unauthorized''), ex_world [])"
proof -
  have a: "CHR '' '' \<notin> set ''Token''" and b: "CHR '' '' \<notin> set ''Bearer''"
    by simp_all
  have c: "getTokenFromRequest \<lparr>authorization = Some ''Basic xyz'', body = None\<rparr> = Some ''xyz''"
    by code_simp
  have d: "getTokenFromRequest \<lparr>authorization = None, body = None\<rparr> = None"
    by code_simp
  have "auth_calls (ex_world []) = []"
    by (simp add: ex_world_def)
  then show ?thesis
    using a b c d
      token_is_second_component [of None "''Token''" "'' abc''" "''Bearer''"
        "\<lparr>authorization = Some ''Basic xyz'', body = None\<rparr>" "''xyz''"
        "ex_env (Throws [])" "ex_world []" ex_config]
      token_is_second_component [of None "''Token''" "'' abc''" "''Bearer''"
        "\<lparr>authorization = None, body = None\<rparr>" "''xyz''"
        "ex_env (Throws [])" "ex_world []" ex_config]
    by simp
qed

subsection \<open>Record store\<close>

lemma maybeSingle_Some: "maybeSingle rows = Row (Some r) \<longleftrightarrow> rows = [r]"
  by (auto simp: maybeSingle_def split: list.splits)

lemma maybeSingle_None: "maybeSingle rows = Row None \<longleftrightarrow> rows = []"
  by (auto simp: maybeSingle_def split: list.splits)

lemma select_domain_Some:
  "select_domain e i user w = Row (Some d) \<Longrightarrow>
   filter (\<lambda>r. d_id r = i \<and> user_id r = user) (domains w) = [d]"
  by (simp add: select_domain_def maybeSingle_Some split: if_splits)

lemma filter_single_unique:
  assumes "filter P xs = [d]" and "r \<in> set xs" and "P r"
  shows "r = d"
proof -
  have "r \<in> set (filter P xs)" using assms(2,3) by simp
  then show ?thesis using assms(1) by simp
qed

lemma filter_map_patch:
  assumes "\<And>r. P (f r) = P r"
  shows "filter P (map (\<lambda>r. if P r then f r else r) xs) = map f (filter P xs)"
  using assms by (induction xs) auto

lemma or_default_nonempty: "d \<noteq> [] \<Longrightarrow> or_default a d \<noteq> []"
  by (simp add: or_default_def split: option.splits)

lemma or_default_Some: "s \<noteq> [] \<Longrightarrow> or_default (Some s) d = s"
  by (simp add: or_default_def)

lemma update_domain_single:
  assumes sel: "filter (\<lambda>r. d_id r = i \<and> user_id r = user) (domains w) = [d]"
    and ok: "\<not> store_error e UpdateDomain"
    and keep: "\<And>r. d_id (f r) = d_id r \<and> user_id (f r) = user_id r"
  shows "update_domain e i user f w =
           (Row (Some (f d)),
            w\<lparr>domains := map (\<lambda>r. if d_id r = i \<and> user_id r = user then f r else r) (domains w)\<rparr>)"
proof -
  have "filter (\<lambda>r. d_id r = i \<and> user_id r = user)
          (map (\<lambda>r. if d_id r = i \<and> user_id r = user then f r else r) (domains w))
        = map f (filter (\<lambda>r. d_id r = i \<and> user_id r = user) (domains w))"
    by (rule filter_map_patch) (simp add: keep)
  then show ?thesis
    using sel ok by (simp add: update_domain_def Let_def maybeSingle_Some)
qed

lemma select_by_hostname_present:
  "\<exists>r \<in> set (domains w). hostname r = host \<Longrightarrow> select_by_hostname e host w \<noteq> Row None"
  by (auto simp: select_by_hostname_def maybeSingle_None filter_empty_conv)

lemma select_by_hostname_unique:
  assumes "distinct (map hostname (domains w))" and "r \<in> set (domains w)"
    and "\<not> store_error e SelectExisting"
  shows "select_by_hostname e (hostname r) w = Row (Some r)"
proof -
  have "distinct (map f xs) \<Longrightarrow> x \<in> set xs \<Longrightarrow> filter (\<lambda>y. f y = f x) xs = [x]"
    for f :: "domain \<Rightarrow> string" and xs x
    by (induction xs) (auto simp: filter_empty_conv image_iff)
  then show ?thesis
    using assms by (simp add: select_by_hostname_def maybeSingle_Some)
qed

lemma insert_domain_fresh:
  assumes "\<forall>r \<in> set (domains w). hostname r \<noteq> hostname row"
  shows "insert_domain e row w =
           (if store_error e InsertDomain then (QueryError, w)
            else (Row (Some row), w\<lparr>domains := domains w @ [row]\<rparr>))"
  using assms by (auto simp: insert_domain_def)

lemma delete_domain_removes:
  "delete_domain e i user w = (False, w') \<Longrightarrow>
   filter (\<lambda>r. d_id r = i \<and> user_id r = user) (domains w') = []"
  by (auto simp: delete_domain_def split: if_splits)

subsection \<open>Edge provider client\<close>

lemma createCustomHostname_domains:
  "createCustomHostname cfg e host w = (r, w') \<Longrightarrow> domains w' = domains w"
  by (auto simp: createCustomHostname_def Let_def split: if_splits cf_reply.splits)

lemma createCustomHostname_Inr:
  "createCustomHostname cfg e host w = (Inr cf, w') \<Longrightarrow>
   \<exists>err result. cf_create_reply e = Reply True err result
     \<and> cf_id cf = Option.bind result result_id
     \<and> cf_state cf = or_default (ssl_status_of result) ''pending''
     \<and> cf_validation_records cf = validation_records_of result
     \<and> (cf_verification_method cf, cf_verification_value cf)
         = descriptor_of_first_record (validation_records_of result)"
  by (cases "validation_records_of (case cf_create_reply e of Reply ok err result \<Rightarrow> result)")
     (auto simp: createCustomHostname_def Let_def js_or_def empty_validation_record_def truthy_def
        split: if_splits cf_reply.splits)

lemma fetchCustomHostnameStatus_Inr:
  "fetchCustomHostnameStatus cfg e c w = (Inr cf, w') \<Longrightarrow>
   \<exists>err result. cf_status_reply e = Reply True err result
     \<and> cf_state cf = or_default (ssl_status_of result) ''pending''
     \<and> cf_validation_records cf = validation_records_of result
     \<and> (cf_verification_method cf, cf_verification_value cf)
         = descriptor_of_first_record (validation_records_of result)"
  by (cases "validation_records_of (case cf_status_reply e of Reply ok err result \<Rightarrow> result)")
     (auto simp: fetchCustomHostnameStatus_def Let_def js_or_def empty_validation_record_def truthy_def
        split: if_splits cf_reply.splits)

lemma createCustomHostname_total:
  assumes "truthy (CLOUDFLARE_API_TOKEN cfg)" "truthy (CLOUDFLARE_ZONE_ID cfg)"
    and "cf_create_reply e = Reply True err result"
  shows "\<exists>cf. createCustomHostname cfg e host w = (Inr cf, w\<lparr>cf_calls := cf_calls w @ [CfCreate host]\<rparr>)"
  using assms by (simp add: createCustomHostname_def Let_def)

lemma fetchCustomHostnameStatus_total:
  assumes "truthy (CLOUDFLARE_API_TOKEN cfg)" "truthy (CLOUDFLARE_ZONE_ID cfg)"
    and "cf_status_reply e = Reply True err result"
  shows "\<exists>cf. fetchCustomHostnameStatus cfg e c w = (Inr cf, w\<lparr>cf_calls := cf_calls w @ [CfFetchStatus c]\<rparr>)"
  using assms by (simp add: fetchCustomHostnameStatus_def Let_def)

lemma fetchCustomHostnameStatus_state:
  "fetchCustomHostnameStatus cfg e c w = (Inr cf, w') \<Longrightarrow> cf_state cf \<noteq> []"
  by (auto simp: fetchCustomHostnameStatus_def Let_def or_default_nonempty
           split: if_splits cf_reply.splits)

text \<open>
  C2, as amended. On a successful provider reply, the create path and the
  status-fetch path derive the same verification descriptor, and both read it
  off the first validation record alone: cname if that record has a CNAME
  target, else txt if it has a TXT value, else http if it has an HTTP URL, else
  none; with no validation record the descriptor is none. In particular, when
  the first record is CNAME-based the method is cname and the value its target,
  whatever records follow.
\<close>

theorem descriptor_from_first_record:
  assumes "truthy (CLOUDFLARE_API_TOKEN cfg)" and "truthy (CLOUDFLARE_ZONE_ID cfg)"
    and "cf_create_reply e = Reply True err result"
    and "cf_status_reply e = Reply True err' result"
  shows "\<exists>created fetched w1 w2.
           createCustomHostname cfg e host w = (Inr created, w1) \<and>
           fetchCustomHostnameStatus cfg e c w = (Inr fetched, w2) \<and>
           (cf_verification_method created, cf_verification_value created)
             = descriptor_of_first_record (validation_records_of result) \<and>
           (cf_verification_method fetched, cf_verification_value fetched)
             = descriptor_of_first_record (validation_records_of result) \<and>
           (\<forall>r rs. validation_records_of result = r # rs \<and> truthy (cname_target r) \<longrightarrow>
              cf_verification_method created = Some ''cname'' \<and>
              cf_verification_value created = cname_target r \<and>
              cf_verification_method fetched = Some ''cname'' \<and>
              cf_verification_value fetched = cname_target r)"
proof -
  obtain created w1 where a: "createCustomHostname cfg e host w = (Inr created, w1)"
    using createCustomHostname_total [OF assms(1-3)] by blast
  obtain fetched w2 where b: "fetchCustomHostnameStatus cfg e c w = (Inr fetched, w2)"
    using fetchCustomHostnameStatus_total [OF assms(1,2,4)] by blast
  have a': "(cf_verification_method created, cf_verification_value created)
             = descriptor_of_first_record (validation_records_of result)"
    using createCustomHostname_Inr [OF a] assms(3) by auto
  have b': "(cf_verification_method fetched, cf_verification_value fetched)
             = descriptor_of_first_record (validation_records_of result)"
    using fetchCustomHostnameStatus_Inr [OF b] assms(4) by auto
  have "\<forall>r rs. validation_records_of result = r # rs \<and> truthy (cname_target r) \<longrightarrow>
              cf_verification_method created = Some ''cname'' \<and>
              cf_verification_value created = cname_target r \<and>
              cf_verification_method fetched = Some ''cname'' \<and>
              cf_verification_value fetched = cname_target r"
    using a' b' by auto
  then show ?thesis using a b a' b' by blast
qed

text \<open>
  C2, counterexample to "in any arrangement": with a TXT record first and a
  CNAME record second, both paths derive the method txt.
\<close>

text \<open>C2, witness: a reply whose first validation record is CNAME-based, followed by a TXT record.\<close>

theorem descriptor_from_first_record_witness:
  "\<exists>created fetched.
     fst (createCustomHostname ex_config (ex_env (ex_reply_records [ex_cname_record, ex_txt_record]))
            ''example.com'' (ex_world [])) = Inr created \<and>
     fst (fetchCustomHostnameStatus ex_config (ex_env (ex_reply_records [ex_cname_record, ex_txt_record]))
            ''cf1'' (ex_world [])) = Inr fetched \<and>
     cf_verification_method created = Some ''cname'' \<and>
     cf_verification_value created = Some ''dv.provider.net'' \<and>
     cf_verification_method fetched = Some ''cname'' \<and>
     cf_verification_value fetched = Some ''dv.provider.net''"
proof -
  let ?e = "ex_env (ex_reply_records [ex_cname_record, ex_txt_record])"
  let ?result = "Some \<lparr>result_id = Some ''cf1'',
                        result_ssl = Some \<lparr>ssl_status = Some ''pending'',
                          ssl_validation_records = Some [ex_cname_record, ex_txt_record]\<rparr>\<rparr>"
  have a: "truthy (CLOUDFLARE_API_TOKEN ex_config)" and b: "truthy (CLOUDFLARE_ZONE_ID ex_config)"
    by (simp_all add: ex_config_def truthy_def)
  have c: "cf_create_reply ?e = Reply True None ?result"
    and d: "cf_status_reply ?e = Reply True None ?result"
    by (simp_all add: ex_env_def ex_reply_records_def)
  have r: "validation_records_of ?result = ex_cname_record # [ex_txt_record]"
    by (simp add: validation_records_of_def)
  have t: "truthy (cname_target ex_cname_record)"
    and v: "cname_target ex_cname_record = Some ''dv.provider.net''"
    by (simp_all add: ex_cname_record_def truthy_def)
  from descriptor_from_first_record [OF a b c d, of "''example.com''" "ex_world []" "''cf1''"]
  obtain created fetched w1 w2 where
    "createCustomHostname ex_config ?e ''example.com'' (ex_world []) = (Inr created, w1)"
    "fetchCustomHostnameStatus ex_config ?e ''cf1'' (ex_world []) = (Inr fetched, w2)"
    "\<forall>r rs. validation_records_of ?result = r # rs \<and> truthy (cname_target r) \<longrightarrow>
              cf_verification_method created = Some ''cname'' \<and>
              cf_verification_value created = cname_target r \<and>
              cf_verification_method fetched = Some ''cname'' \<and>
              cf_verification_value fetched = cname_target r"
    by blast
  then show ?thesis using r t v by auto
qed

theorem first_record_only_counterexample:
  "fst (createCustomHostname ex_config (ex_env (ex_reply_records [ex_txt_record, ex_cname_record]))
          ''example.com'' (ex_world []))
     = Inr \<lparr>cf_state = ''pending'', cf_verification_method = Some ''txt'',
            cf_verification_value = Some ''txt-proof'',
            cf_validation_records = [ex_txt_record, ex_cname_record],
            cf_id = Some ''cf1''\<rparr>
   \<and> fst (fetchCustomHostnameStatus ex_config (ex_env (ex_reply_records [ex_txt_record, ex_cname_record]))
          ''cf1'' (ex_world []))
     = Inr \<lparr>cf_state = ''pending'', cf_verification_method = Some ''txt'',
            cf_verification_value = Some ''txt-proof'',
            cf_validation_records = [ex_txt_record, ex_cname_record]\<rparr>"
  by code_simp

subsection \<open>Create\<close>

text \<open>
  C8. When the table already holds a record for the normalised hostname of the
  request, \<open>POST\<close> makes no provider call, persists nothing and answers with an
  error; for a request that passes the earlier steps (authenticated, both fields
  present, site found) and a store that answers the uniqueness query over a table
  with unique hostnames, the answer is 409 "Hostname already in use".
\<close>

theorem POST_conflict_before_provider:
  assumes "\<exists>r \<in> set (domains w).
             hostname r = normalizeHostname (or_default (payload_field p_hostname req) [])"
  shows "cf_calls (snd (POST cfg e req w)) = cf_calls w \<and>
         domains (snd (POST cfg e req w)) = domains w \<and>
         (\<exists>code msg. fst (POST cfg e req w) = (code, Err msg) \<and> code \<in> {400, 401, 404, 409, 500}) \<and>
         (ensureUser e req w = (Inr user, w1) \<and>
          truthy (payload_field p_siteId req) \<and> truthy (payload_field p_hostname req) \<and>
          select_site e (or_default (payload_field p_siteId req) []) user w1 = Row (Some st) \<and>
          \<not> store_error e SelectExisting \<and> distinct (map hostname (domains w))
            \<longrightarrow> POST cfg e req w = ((409, Err ''Hostname already in use''), w1))"
proof -
  let ?host = "normalizeHostname (or_default (payload_field p_hostname req) [])"
  obtain res w1' where u: "ensureUser e req w = (res, w1')"
    by (cases "ensureUser e req w") auto
  have t: "domains w1' = domains w" "cf_calls w1' = cf_calls w"
    using ensureUser_tables [OF u] by simp_all
  have present: "select_by_hostname e ?host w1' \<noteq> Row None"
    using assms t by (intro select_by_hostname_present) simp
  have gen: "cf_calls (snd (POST cfg e req w)) = cf_calls w \<and>
         domains (snd (POST cfg e req w)) = domains w \<and>
         (\<exists>code msg. fst (POST cfg e req w) = (code, Err msg) \<and> code \<in> {400, 401, 404, 409, 500})"
    using u t present
    by (auto simp: POST_def Let_def split: sum.splits query.splits option.splits)
  have spec: "POST cfg e req w = ((409, Err ''Hostname already in use''), w1)"
    if h: "ensureUser e req w = (Inr user, w1) \<and>
          truthy (payload_field p_siteId req) \<and> truthy (payload_field p_hostname req) \<and>
          select_site e (or_default (payload_field p_siteId req) []) user w1 = Row (Some st) \<and>
          \<not> store_error e SelectExisting \<and> distinct (map hostname (domains w))"
  proof -
    obtain r where r: "r \<in> set (domains w1)" "hostname r = ?host"
      using assms ensureUser_tables [of e req w "Inr user" w1] h by auto
    have "select_by_hostname e (hostname r) w1 = Row (Some r)"
      using h r ensureUser_tables [of e req w "Inr user" w1]
      by (intro select_by_hostname_unique) simp_all
    then show ?thesis
      using h r by (simp add: POST_def Let_def)
  qed
  show ?thesis using gen spec by blast
qed

text \<open>
  C1, as amended. For an authenticated request with both fields, an existing
  site of the user and a hostname with no record in the table, \<open>POST\<close> either
  answers 200 with the inserted record, which is appended to the table and
  carries the normalised hostname, the identifier the provider's reply reports
  (\<open>result.id\<close>, non-null whenever the reply has one) and the provider's status,
  \<open>pending\<close> when the reply has none; or it answers 500 and the table is
  unchanged, so that no record exists for the hostname. When the provider create
  fails nothing is inserted, and when the insert fails after a successful
  provider create the answer is 500 "Created in Cloudflare but failed to save to
  database" and the table is unchanged.
\<close>

text \<open>
  C8, witness: creating \<open>HTTPS://Example.com/\<close> while \<open>example.com\<close> is stored
  answers 409 without a provider call.
\<close>

theorem POST_conflict_before_provider_witness:
  "POST ex_config (ex_env (ex_reply_records [ex_cname_record]))
       (ex_request (Some ''Bearer good'') (ex_create_payload ''HTTPS://Example.com/''))
       (ex_world [ex_domain (Some ''cf1'')])
     = ((409, Err ''Hostname already in use''),
        (ex_world [ex_domain (Some ''cf1'')])\<lparr>auth_calls := [''good'']\<rparr>)
   \<and> cf_calls (snd (POST ex_config (ex_env (ex_reply_records [ex_cname_record]))
       (ex_request (Some ''Bearer good'') (ex_create_payload ''HTTPS://Example.com/''))
       (ex_world [ex_domain (Some ''cf1'')]))) = cf_calls (ex_world [ex_domain (Some ''cf1'')])
   \<and> domains (snd (POST ex_config (ex_env (ex_reply_records [ex_cname_record]))
       (ex_request (Some ''Bearer good'') (ex_create_payload ''HTTPS://Example.com/''))
       (ex_world [ex_domain (Some ''cf1'')]))) = domains (ex_world [ex_domain (Some ''cf1'')])"
proof -
  let ?e = "ex_env (ex_reply_records [ex_cname_record])"
  let ?req = "ex_request (Some ''Bearer good'') (ex_create_payload ''HTTPS://Example.com/'')"
  let ?w = "ex_world [ex_domain (Some ''cf1'')]"
  have h: "normalizeHostname (or_default (payload_field p_hostname ?req) []) = ''example.com''"
    by code_simp
  have p: "\<exists>r \<in> set (domains ?w).
             hostname r = normalizeHostname (or_default (payload_field p_hostname ?req) [])"
    unfolding h by (simp add: ex_world_def ex_domain_def)
  have a: "ensureUser ?e ?req ?w = (Inr ''u1'', ?w\<lparr>auth_calls := [''good'']\<rparr>)"
    by code_simp
  have b: "truthy (payload_field p_siteId ?req)" and c: "truthy (payload_field p_hostname ?req)"
    by code_simp+
  have d: "select_site ?e (or_default (payload_field p_siteId ?req) []) ''u1''
             (?w\<lparr>auth_calls := [''good'']\<rparr>) = Row (Some ex_site)"
    by code_simp
  have f: "\<not> store_error ?e SelectExisting" and g: "distinct (map hostname (domains ?w))"
    by (simp_all add: ex_env_def ex_world_def)
  show ?thesis
    using POST_conflict_before_provider [OF p, of ex_config ?e "''u1''"
        "?w\<lparr>auth_calls := [''good'']\<rparr>" ex_site] a b c d f g
    by blast
qed

theorem POST_atomic:
  assumes "ensureUser e req w = (Inr user, w1)"
    and "truthy (payload_field p_siteId req)"
    and "truthy (payload_field p_hostname req)"
    and "select_site e (or_default (payload_field p_siteId req) []) user w1 = Row (Some st)"
    and "\<forall>r \<in> set (domains w).
           hostname r \<noteq> normalizeHostname (or_default (payload_field p_hostname req) [])"
  shows "((\<exists>d err result w3.
             POST cfg e req w =
               ((200, Success d (validation_records_of result) (CLOUDFLARE_CNAME_TARGET cfg)), w3) \<and>
             domains w3 = domains w @ [d] \<and>
             hostname d = normalizeHostname (or_default (payload_field p_hostname req) []) \<and>
             user_id d = user \<and> site_id d = s_id st \<and>
             cf_create_reply e = Reply True err result \<and>
             cf_custom_hostname_id d = Option.bind result result_id \<and>
             status d = Some (or_default (ssl_status_of result) ''pending''))
          \<or> (\<exists>msg w3. POST cfg e req w = ((500, Err msg), w3) \<and> domains w3 = domains w)) \<and>
         (\<forall>msg w2. createCustomHostname cfg e
                      (normalizeHostname (or_default (payload_field p_hostname req) [])) w1
                    = (Inl msg, w2) \<and> \<not> store_error e SelectExisting
            \<longrightarrow> (\<exists>m. POST cfg e req w = ((500, Err m), w2)) \<and> domains w2 = domains w) \<and>
         (\<forall>cf w2. createCustomHostname cfg e
                     (normalizeHostname (or_default (payload_field p_hostname req) [])) w1
                    = (Inr cf, w2) \<and> \<not> store_error e SelectExisting \<and> store_error e InsertDomain
            \<longrightarrow> POST cfg e req w =
                  ((500, Err ''Created in Cloudflare but failed to save to database''), w2)
                \<and> domains w2 = domains w)"
proof -
  let ?host = "normalizeHostname (or_default (payload_field p_hostname req) [])"
  have t: "domains w1 = domains w"
    using ensureUser_tables [OF assms(1)] by simp
  have none: "\<not> store_error e SelectExisting \<Longrightarrow> select_by_hostname e ?host w1 = Row None"
    using assms(5) t by (simp add: select_by_hostname_def maybeSingle_None filter_empty_conv)
  have err: "store_error e SelectExisting \<Longrightarrow> select_by_hostname e ?host w1 = QueryError"
    by (simp add: select_by_hostname_def)
  have fail: "(\<exists>m. POST cfg e req w = ((500, Err m), w2)) \<and> domains w2 = domains w"
    if "createCustomHostname cfg e ?host w1 = (Inl msg, w2)" "\<not> store_error e SelectExisting"
    for msg w2
    using that assms(1-4) none createCustomHostname_domains [OF that(1)] t
    by (simp add: POST_def Let_def)
  have ins: "POST cfg e req w =
                  ((500, Err ''Created in Cloudflare but failed to save to database''), w2)
                \<and> domains w2 = domains w"
    if "createCustomHostname cfg e ?host w1 = (Inr cf, w2)" "\<not> store_error e SelectExisting"
       "store_error e InsertDomain"
    for cf w2
    using that assms(1-4) none createCustomHostname_domains [OF that(1)] t
    by (simp add: POST_def Let_def insert_domain_def)
  have main: "(\<exists>d err result w3.
             POST cfg e req w =
               ((200, Success d (validation_records_of result) (CLOUDFLARE_CNAME_TARGET cfg)), w3) \<and>
             domains w3 = domains w @ [d] \<and>
             hostname d = ?host \<and>
             user_id d = user \<and> site_id d = s_id st \<and>
             cf_create_reply e = Reply True err result \<and>
             cf_custom_hostname_id d = Option.bind result result_id \<and>
             status d = Some (or_default (ssl_status_of result) ''pending''))
          \<or> (\<exists>msg w3. POST cfg e req w = ((500, Err msg), w3) \<and> domains w3 = domains w)"
  proof (cases "store_error e SelectExisting")
    case True
    then show ?thesis
      using assms(1-4) err t by (simp add: POST_def Let_def)
  next
    case False
    obtain res w2 where c: "createCustomHostname cfg e ?host w1 = (res, w2)"
      by (cases "createCustomHostname cfg e ?host w1") auto
    show ?thesis
    proof (cases res)
      case (Inl msg)
      then show ?thesis using fail [of msg w2] c False by blast
    next
      case (Inr cf)
      show ?thesis
      proof (cases "store_error e InsertDomain")
        case True
        then show ?thesis using ins [of cf w2] c Inr False by blast
      next
        case noerr: False
        obtain err result where r: "cf_create_reply e = Reply True err result"
          "cf_id cf = Option.bind result result_id"
          "cf_state cf = or_default (ssl_status_of result) ''pending''"
          "cf_validation_records cf = validation_records_of result"
          using createCustomHostname_Inr c Inr by blast
        have st: "or_default (Some (cf_state cf)) ''pending'' = cf_state cf"
          using r(3) by (simp add: or_default_Some or_default_nonempty)
        let ?row = "\<lparr>d_id = new_row_id e, site_id = s_id st, user_id = user, hostname = ?host,
                     cf_custom_hostname_id = cf_id cf,
                     status = Some (or_default (Some (cf_state cf)) ''pending''),
                     verification_method = cf_verification_method cf,
                     verification_value = cf_verification_value cf,
                     created_at = db_now e, updated_at = db_now e\<rparr>"
        have d2: "domains w2 = domains w"
          using createCustomHostname_domains c t by simp
        have i: "insert_domain e ?row w2 = (Row (Some ?row), w2\<lparr>domains := domains w2 @ [?row]\<rparr>)"
          using insert_domain_fresh [of w2 ?row e] assms(5) d2 noerr by simp
        have "POST cfg e req w =
                ((200, Success ?row (cf_validation_records cf) (CLOUDFLARE_CNAME_TARGET cfg)),
                 w2\<lparr>domains := domains w2 @ [?row]\<rparr>)"
          using assms(1-4) none [OF False] c Inr i by (simp add: POST_def Let_def)
        then show ?thesis
          using r st d2 by auto
      qed
    qed
  qed
  show ?thesis using main fail ins by blast
qed

subsection \<open>Refresh\<close>

text \<open>
  C1, witness: the spec's end-to-end example. Creating \<open>Example.com\<close> with a
  provider reply of id \<open>cf1\<close> and status \<open>pending\<close> stores one record with
  hostname \<open>example.com\<close>.
\<close>

theorem POST_atomic_witness:
  "\<exists>d w3.
     POST ex_config (ex_env (ex_reply_records [ex_cname_record]))
       (ex_request (Some ''Bearer good'') (ex_create_payload ''Example.com'')) (ex_world [])
       = ((200, Success d [ex_cname_record] ''edge.simplhost.com''), w3) \<and>
     domains w3 = [d] \<and> hostname d = ''example.com'' \<and>
     cf_custom_hostname_id d = Some ''cf1'' \<and> status d = Some ''pending''"
proof -
  let ?e = "ex_env (ex_reply_records [ex_cname_record])"
  let ?req = "ex_request (Some ''Bearer good'') (ex_create_payload ''Example.com'')"
  let ?w = "ex_world []"
  have h: "normalizeHostname (or_default (payload_field p_hostname ?req) []) = ''example.com''"
    by code_simp
  have a: "ensureUser ?e ?req ?w = (Inr ''u1'', ?w\<lparr>auth_calls := [''good'']\<rparr>)"
    by code_simp
  have b: "truthy (payload_field p_siteId ?req)" and c: "truthy (payload_field p_hostname ?req)"
    by code_simp+
  have d: "select_site ?e (or_default (payload_field p_siteId ?req) []) ''u1''
             (?w\<lparr>auth_calls := [''good'']\<rparr>) = Row (Some ex_site)"
    by code_simp
  have f: "\<forall>r \<in> set (domains ?w).
             hostname r \<noteq> normalizeHostname (or_default (payload_field p_hostname ?req) [])"
    by (simp add: ex_world_def)
  have ok: "fst (fst (POST ex_config ?e ?req ?w)) = 200"
    by code_simp
  have reply: "cf_create_reply ?e = Reply True err result \<Longrightarrow>
       validation_records_of result = [ex_cname_record] \<and>
       Option.bind result result_id = Some ''cf1'' \<and>
       or_default (ssl_status_of result) ''pending'' = ''pending''" for err result
    by (auto simp: ex_env_def ex_reply_records_def validation_records_of_def ssl_status_of_def
          or_default_def)
  have t: "CLOUDFLARE_CNAME_TARGET ex_config = ''edge.simplhost.com''"
    by (simp add: CLOUDFLARE_CNAME_TARGET_def ex_config_def or_default_def)
  have w: "domains ?w = []"
    by (simp add: ex_world_def)
  from POST_atomic [OF a b c d f, of ex_config]
  have "(\<exists>d err result w3.
             POST ex_config ?e ?req ?w =
               ((200, Success d (validation_records_of result) (CLOUDFLARE_CNAME_TARGET ex_config)), w3) \<and>
             domains w3 = domains ?w @ [d] \<and>
             hostname d = normalizeHostname (or_default (payload_field p_hostname ?req) []) \<and>
             user_id d = ''u1'' \<and> site_id d = s_id ex_site \<and>
             cf_create_reply ?e = Reply True err result \<and>
             cf_custom_hostname_id d = Option.bind result result_id \<and>
             status d = Some (or_default (ssl_status_of result) ''pending''))
          \<or> (\<exists>msg w3. POST ex_config ?e ?req ?w = ((500, Err msg), w3) \<and> domains w3 = domains ?w)"
    by blast
  then show ?thesis
  proof
    assume "\<exists>msg w3. POST ex_config ?e ?req ?w = ((500, Err msg), w3) \<and> domains w3 = domains ?w"
    then show ?thesis using ok by auto
  next
    assume "\<exists>d err result w3.
             POST ex_config ?e ?req ?w =
               ((200, Success d (validation_records_of result) (CLOUDFLARE_CNAME_TARGET ex_config)), w3) \<and>
             domains w3 = domains ?w @ [d] \<and>
             hostname d = normalizeHostname (or_default (payload_field p_hostname ?req) []) \<and>
             user_id d = ''u1'' \<and> site_id d = s_id ex_site \<and>
             cf_create_reply ?e = Reply True err result \<and>
             cf_custom_hostname_id d = Option.bind result result_id \<and>
             status d = Some (or_default (ssl_status_of result) ''pending'')"
    then obtain d err result w3 where
      "POST ex_config ?e ?req ?w =
               ((200, Success d (validation_records_of result) (CLOUDFLARE_CNAME_TARGET ex_config)), w3)"
      "domains w3 = domains ?w @ [d]"
      "hostname d = normalizeHostname (or_default (payload_field p_hostname ?req) [])"
      "cf_create_reply ?e = Reply True err result"
      "cf_custom_hostname_id d = Option.bind result result_id"
      "status d = Some (or_default (ssl_status_of result) ''pending'')"
      by blast
    then show ?thesis
      using reply [of err result] h t w by auto
  qed
qed

text \<open>
  C1, counterexample to "a non-null provider hostname identifier": when the
  provider's success reply carries no \<open>id\<close>, \<open>POST\<close> still answers 200 and
  stores a record whose \<open>cf_custom_hostname_id\<close> is null.
\<close>

theorem POST_success_without_provider_id:
  "POST ex_config (ex_env ex_reply_no_id)
       (ex_request (Some ''Bearer good'') (ex_create_payload ''Example.com'')) (ex_world [])
     = ((200, Success
           \<lparr>d_id = ''d2'', site_id = ''S1'', user_id = ''u1'', hostname = ''example.com'',
            cf_custom_hostname_id = None, status = Some ''pending'',
            verification_method = None, verification_value = None,
            created_at = ''t1'', updated_at = ''t1''\<rparr> [] ''edge.simplhost.com''),
        \<lparr>domains =
           [\<lparr>d_id = ''d2'', site_id = ''S1'', user_id = ''u1'', hostname = ''example.com'',
             cf_custom_hostname_id = None, status = Some ''pending'',
             verification_method = None, verification_value = None,
             created_at = ''t1'', updated_at = ''t1''\<rparr>],
         sites = [ex_site], cf_calls = [CfCreate ''example.com''], auth_calls = [''good'']\<rparr>)"
  by code_simp

lemma fetchCustomHostnameStatus_domains:
  "fetchCustomHostnameStatus cfg e c w = (r, w') \<Longrightarrow> domains w' = domains w"
  by (auto simp: fetchCustomHostnameStatus_def Let_def split: if_splits cf_reply.splits)

lemma fetchCustomHostnameStatus_fails:
  assumes "\<not> truthy (CLOUDFLARE_API_TOKEN cfg) \<or> \<not> truthy (CLOUDFLARE_ZONE_ID cfg)
           \<or> (\<exists>m. cf_status_reply e = Throws m)
           \<or> (\<exists>err result. cf_status_reply e = Reply False err result)"
  shows "\<exists>m w'. fetchCustomHostnameStatus cfg e c w = (Inl m, w')"
  using assms by (auto simp: fetchCustomHostnameStatus_def Let_def)

text \<open>
  C7. When the stored record found for the authenticated user has no provider
  hostname identifier, \<open>PATCH\<close> answers 400 "Missing Cloudflare mapping for this
  domain"; no provider call is added to the trace and the table is unchanged.
\<close>

theorem PATCH_without_provider_id:
  assumes "ensureUser e req w = (Inr user, w1)"
    and "truthy (payload_field p_id req)"
    and "select_domain e (or_default (payload_field p_id req) []) user w1 = Row (Some domain)"
    and "\<not> truthy (cf_custom_hostname_id domain)"
  shows "PATCH cfg e req w = ((400, Err ''Missing Cloudflare mapping for this domain''), w1)
         \<and> cf_calls w1 = cf_calls w \<and> domains w1 = domains w"
  using assms ensureUser_tables [OF assms(1)]
  by (simp add: PATCH_def Let_def)

text \<open>C7, witness: the stored example domain without a provider identifier.\<close>

theorem PATCH_without_provider_id_witness:
  "PATCH ex_config (ex_env (ex_reply_records []))
       (ex_request (Some ''Bearer good'') ex_id_payload) (ex_world [ex_domain None])
     = ((400, Err ''Missing Cloudflare mapping for this domain''),
        (ex_world [ex_domain None])\<lparr>auth_calls := [''good'']\<rparr>)
   \<and> cf_calls ((ex_world [ex_domain None])\<lparr>auth_calls := [''good'']\<rparr>)
       = cf_calls (ex_world [ex_domain None])
   \<and> domains ((ex_world [ex_domain None])\<lparr>auth_calls := [''good'']\<rparr>)
       = domains (ex_world [ex_domain None])"
proof -
  have a: "ensureUser (ex_env (ex_reply_records []))
             (ex_request (Some ''Bearer good'') ex_id_payload) (ex_world [ex_domain None])
           = (Inr ''u1'', (ex_world [ex_domain None])\<lparr>auth_calls := [''good'']\<rparr>)"
    by code_simp
  have b: "truthy (payload_field p_id (ex_request (Some ''Bearer good'') ex_id_payload))"
    by code_simp
  have c: "select_domain (ex_env (ex_reply_records []))
             (or_default (payload_field p_id (ex_request (Some ''Bearer good'') ex_id_payload)) [])
             ''u1'' ((ex_world [ex_domain None])\<lparr>auth_calls := [''good'']\<rparr>)
           = Row (Some (ex_domain None))"
    by code_simp
  have d: "\<not> truthy (cf_custom_hostname_id (ex_domain None))"
    by code_simp
  show ?thesis
    by (rule PATCH_without_provider_id [OF a b c d])
qed

text \<open>
  C5. When the provider status fetch of \<open>PATCH\<close> fails (the provider
  configuration is missing, the call throws, or the provider answers with a
  non-success response, which is also how an unknown identifier is reported),
  the handler answers 500 with an error message and the table of domains is
  exactly as before: no field of any record, the updated-timestamp included, is
  written.
\<close>

theorem PATCH_provider_failure:
  assumes "ensureUser e req w = (Inr user, w1)"
    and "truthy (payload_field p_id req)"
    and "select_domain e (or_default (payload_field p_id req) []) user w1 = Row (Some domain)"
    and "truthy (cf_custom_hostname_id domain)"
    and "\<not> truthy (CLOUDFLARE_API_TOKEN cfg) \<or> \<not> truthy (CLOUDFLARE_ZONE_ID cfg)
           \<or> (\<exists>m. cf_status_reply e = Throws m)
           \<or> (\<exists>err result. cf_status_reply e = Reply False err result)"
  shows "\<exists>msg w'. PATCH cfg e req w = ((500, Err msg), w') \<and> domains w' = domains w"
proof -
  obtain m w2 where f: "fetchCustomHostnameStatus cfg e
        (or_default (cf_custom_hostname_id domain) []) w1 = (Inl m, w2)"
    using fetchCustomHostnameStatus_fails [OF assms(5)] by blast
  have "domains w2 = domains w"
    using fetchCustomHostnameStatus_domains [OF f] ensureUser_tables [OF assms(1)] by simp
  moreover have "PATCH cfg e req w = ((500, Err (or_default (Some m) ''Failed to refresh domain'')), w2)"
    using assms(1-4) f by (simp add: PATCH_def Let_def)
  ultimately show ?thesis by blast
qed

text \<open>C5, witness: the provider call throws while refreshing the stored example domain.\<close>

theorem PATCH_provider_failure_witness:
  "\<exists>msg w'. PATCH ex_config (ex_env (Throws ''boom''))
               (ex_request (Some ''Bearer good'') ex_id_payload)
               (ex_world [ex_domain (Some ''cf1'')]) = ((500, Err msg), w')
     \<and> domains w' = domains (ex_world [ex_domain (Some ''cf1'')])"
proof -
  have a: "ensureUser (ex_env (Throws ''boom''))
             (ex_request (Some ''Bearer good'') ex_id_payload) (ex_world [ex_domain (Some ''cf1'')])
           = (Inr ''u1'', (ex_world [ex_domain (Some ''cf1'')])\<lparr>auth_calls := [''good'']\<rparr>)"
    by code_simp
  have b: "truthy (payload_field p_id (ex_request (Some ''Bearer good'') ex_id_payload))"
    by code_simp
  have c: "select_domain (ex_env (Throws ''boom''))
             (or_default (payload_field p_id (ex_request (Some ''Bearer good'') ex_id_payload)) [])
             ''u1'' ((ex_world [ex_domain (Some ''cf1'')])\<lparr>auth_calls := [''good'']\<rparr>)
           = Row (Some (ex_domain (Some ''cf1'')))"
    by code_simp
  have d: "truthy (cf_custom_hostname_id (ex_domain (Some ''cf1'')))"
    by code_simp
  have f: "\<not> truthy (CLOUDFLARE_API_TOKEN ex_config) \<or> \<not> truthy (CLOUDFLARE_ZONE_ID ex_config)
           \<or> (\<exists>m. cf_status_reply (ex_env (Throws ''boom'')) = Throws m)
           \<or> (\<exists>err result. cf_status_reply (ex_env (Throws ''boom'')) = Reply False err result)"
    by (simp add: ex_env_def)
  show ?thesis
    by (rule PATCH_provider_failure [OF a b c d f])
qed

text \<open>
  C3, as amended. On a successful provider status response, \<open>PATCH\<close> writes the
  provider's status (never empty, \<open>pending\<close> by default), the provider's
  verification method and value where the provider reports them, and the new
  updated-timestamp; where the provider reports no verification record the
  stored method and value are kept. Exactly the one stored record is replaced.
\<close>

theorem PATCH_refresh:
  assumes "ensureUser e req w = (Inr user, w1)"
    and "truthy (payload_field p_id req)"
    and "select_domain e (or_default (payload_field p_id req) []) user w1 = Row (Some domain)"
    and "truthy (cf_custom_hostname_id domain)"
    and "fetchCustomHostnameStatus cfg e (or_default (cf_custom_hostname_id domain) []) w1
           = (Inr cf, w2)"
    and "\<not> store_error e UpdateDomain"
  shows "\<exists>w3. PATCH cfg e req w =
           ((200, Success (refreshed e cf domain) (cf_validation_records cf)
                    (CLOUDFLARE_CNAME_TARGET cfg)), w3)
         \<and> domains w3 =
             map (\<lambda>r. if d_id r = or_default (payload_field p_id req) [] \<and> user_id r = user
                      then refreshed e cf domain else r) (domains w)"
proof -
  let ?i = "or_default (payload_field p_id req) []"
  let ?P = "\<lambda>r. d_id r = ?i \<and> user_id r = user"
  let ?f = "\<lambda>r. r\<lparr>status := js_or (Some (cf_state cf)) (status domain),
                    verification_method :=
                      js_nullish (cf_verification_method cf) (verification_method domain),
                    verification_value :=
                      js_nullish (cf_verification_value cf) (verification_value domain),
                    updated_at := now e\<rparr>"
  have d2: "domains w2 = domains w" and d1: "domains w1 = domains w"
    using fetchCustomHostnameStatus_domains [OF assms(5)] ensureUser_tables [OF assms(1)]
    by simp_all
  have sel: "filter ?P (domains w2) = [domain]"
    using select_domain_Some [OF assms(3)] d1 d2 by simp
  have fd: "?f domain = refreshed e cf domain"
    using fetchCustomHostnameStatus_state [OF assms(5)]
    by (simp add: refreshed_def js_or_def js_nullish_def truthy_def split: option.splits)
  have same: "map (\<lambda>r. if ?P r then ?f r else r) (domains w2)
            = map (\<lambda>r. if ?P r then refreshed e cf domain else r) (domains w2)"
  proof (rule map_cong [OF refl])
    fix r assume "r \<in> set (domains w2)"
    then show "(if ?P r then ?f r else r) = (if ?P r then refreshed e cf domain else r)"
      using filter_single_unique [OF sel, of r] fd by auto
  qed
  have upd: "update_domain e ?i user ?f w2 =
           (Row (Some (?f domain)),
            w2\<lparr>domains := map (\<lambda>r. if ?P r then ?f r else r) (domains w2)\<rparr>)"
    by (rule update_domain_single [OF sel assms(6)]) simp
  have "PATCH cfg e req w =
          ((200, Success (?f domain) (cf_validation_records cf) (CLOUDFLARE_CNAME_TARGET cfg)),
           w2\<lparr>domains := map (\<lambda>r. if ?P r then ?f r else r) (domains w2)\<rparr>)"
    using assms(1-5) upd by (simp add: PATCH_def Let_def)
  then show ?thesis
    using fd same d2 by simp
qed

subsection \<open>Delete\<close>

text \<open>C3, witness: the provider now reports a TXT record for the stored example domain.\<close>

theorem PATCH_refresh_witness:
  "\<exists>w3. PATCH ex_config (ex_env (ex_reply_records [ex_txt_record]))
           (ex_request (Some ''Bearer good'') ex_id_payload) (ex_world [ex_domain (Some ''cf1'')])
         = ((200, Success
               ((ex_domain (Some ''cf1''))
                  \<lparr>verification_method := Some ''txt'', verification_value := Some ''txt-proof'',
                   updated_at := ''t2''\<rparr>)
               [ex_txt_record] ''edge.simplhost.com''), w3)
     \<and> domains w3 =
         [(ex_domain (Some ''cf1''))
            \<lparr>verification_method := Some ''txt'', verification_value := Some ''txt-proof'',
             updated_at := ''t2''\<rparr>]"
proof -
  let ?e = "ex_env (ex_reply_records [ex_txt_record])"
  let ?req = "ex_request (Some ''Bearer good'') ex_id_payload"
  let ?w = "ex_world [ex_domain (Some ''cf1'')]"
  let ?w1 = "?w\<lparr>auth_calls := [''good'']\<rparr>"
  let ?cf = "\<lparr>cf_state = ''pending'', cf_verification_method = Some ''txt'',
             cf_verification_value = Some ''txt-proof'',
             cf_validation_records = [ex_txt_record]\<rparr>"
  have a: "ensureUser ?e ?req ?w = (Inr ''u1'', ?w1)"
    by code_simp
  have b: "truthy (payload_field p_id ?req)"
    by code_simp
  have c: "select_domain ?e (or_default (payload_field p_id ?req) []) ''u1'' ?w1
           = Row (Some (ex_domain (Some ''cf1'')))"
    by code_simp
  have d: "truthy (cf_custom_hostname_id (ex_domain (Some ''cf1'')))"
    by code_simp
  have f: "fetchCustomHostnameStatus ex_config ?e
             (or_default (cf_custom_hostname_id (ex_domain (Some ''cf1''))) []) ?w1
           = (Inr ?cf, ?w1\<lparr>cf_calls := [CfFetchStatus ''cf1'']\<rparr>)"
    by code_simp
  have g: "\<not> store_error ?e UpdateDomain"
    by (simp add: ex_env_def)
  have r: "refreshed ?e ?cf (ex_domain (Some ''cf1'')) =
             (ex_domain (Some ''cf1''))
                  \<lparr>verification_method := Some ''txt'', verification_value := Some ''txt-proof'',
                   updated_at := ''t2''\<rparr>"
    by (simp add: refreshed_def ex_env_def ex_domain_def)
  have t: "CLOUDFLARE_CNAME_TARGET ex_config = ''edge.simplhost.com''"
    by (simp add: CLOUDFLARE_CNAME_TARGET_def ex_config_def or_default_def)
  have i: "or_default (payload_field p_id ?req) [] = ''d1''"
    by code_simp
  have m: "domains ?w = [ex_domain (Some ''cf1'')]"
    "d_id (ex_domain (Some ''cf1'')) = ''d1''" "user_id (ex_domain (Some ''cf1'')) = ''u1''"
    by (simp_all add: ex_world_def ex_domain_def)
  show ?thesis
    using PATCH_refresh [OF a b c d f g] by (simp add: r t i m)
qed

text \<open>
  C3, counterexample to "overwriting them with null/none": the provider reports
  no validation record, so the derived method and value are null, and the
  refreshed record still carries the stored \<open>cname\<close> method and its value.
\<close>

theorem PATCH_keeps_stored_verification:
  "fst (fetchCustomHostnameStatus ex_config (ex_env (ex_reply_records [])) ''cf1''
          (ex_world [ex_domain (Some ''cf1'')]))
     = Inr \<lparr>cf_state = ''pending'', cf_verification_method = None,
            cf_verification_value = None, cf_validation_records = []\<rparr>
   \<and> fst (PATCH ex_config (ex_env (ex_reply_records []))
            (ex_request (Some ''Bearer good'') ex_id_payload) (ex_world [ex_domain (Some ''cf1'')]))
     = (200, Success
          \<lparr>d_id = ''d1'', site_id = ''S1'', user_id = ''u1'', hostname = ''example.com'',
           cf_custom_hostname_id = Some ''cf1'', status = Some ''pending'',
           verification_method = Some ''cname'', verification_value = Some ''dv.provider.net'',
           created_at = ''t0'', updated_at = ''t2''\<rparr> [] ''edge.simplhost.com'')"
  by code_simp

lemma ensureUser_env:
  "auth_getUser e' = auth_getUser e \<Longrightarrow> ensureUser e req w = (Inr user, w1) \<Longrightarrow>
   ensureUser e' req w' = (Inr user, w'\<lparr>auth_calls := auth_calls w' @ [the (getTokenFromRequest req)]\<rparr>)"
  by (auto simp: ensureUser_def Let_def split: option.splits)

lemma ensureUser_throws: "ensureUser (e\<lparr>cf_delete_throws := b\<rparr>) = ensureUser e"
  by (intro ext) (simp add: ensureUser_def Let_def split: option.splits)

lemma select_domain_throws: "select_domain (e\<lparr>cf_delete_throws := b\<rparr>) = select_domain e"
  by (intro ext) (simp add: select_domain_def)

lemma delete_domain_throws: "delete_domain (e\<lparr>cf_delete_throws := b\<rparr>) = delete_domain e"
  by (intro ext) (simp add: delete_domain_def)

lemma cf_delete_fetch_throws:
  "snd (cf_delete_fetch (e\<lparr>cf_delete_throws := b\<rparr>) c w) = snd (cf_delete_fetch e c w)"
  by (simp add: cf_delete_fetch_def)

lemma DELETE_success_cases:
  assumes "fst (DELETE cfg e req w) = (200, SuccessOnly)"
  shows "\<exists>user w1. ensureUser e req w = (Inr user, w1) \<and> truthy (payload_field p_id req)
           \<and> filter (\<lambda>r. d_id r = or_default (payload_field p_id req) [] \<and> user_id r = user)
                (domains (snd (DELETE cfg e req w))) = []"
  using assms
  by (auto simp: DELETE_def Let_def delete_domain_def
           split: prod.splits sum.splits if_splits query.splits option.splits bool.splits)

lemma PATCH_not_found:
  assumes "ensureUser e req w = (Inr user, w1)" and "truthy (payload_field p_id req)"
    and "filter (\<lambda>r. d_id r = or_default (payload_field p_id req) [] \<and> user_id r = user)
           (domains w1) = []"
  shows "PATCH cfg e req w = ((404, Err ''Domain not found''), w1)"
  using assms by (simp add: PATCH_def Let_def select_domain_def maybeSingle_def)

text \<open>
  C6. Whether the provider-side deregistration call throws has no influence on
  \<open>DELETE\<close>: the response and the world after it are the same. For a record
  of the authenticated user that the store finds and deletes, the answer is 200
  and the record is gone; and after any successful \<open>DELETE\<close>, a following
  \<open>PATCH\<close> by the same user for the same id answers 404 "Domain not found".
\<close>

theorem DELETE_terminal_provider_nonfatal:
  "DELETE cfg (e\<lparr>cf_delete_throws := b\<rparr>) req w = DELETE cfg e req w \<and>
   (ensureUser e req w = (Inr user, w1) \<and> truthy (payload_field p_id req) \<and>
    select_domain e (or_default (payload_field p_id req) []) user w1 = Row (Some domain) \<and>
    \<not> store_error e DeleteDomain
      \<longrightarrow> fst (DELETE cfg e req w) = (200, SuccessOnly)
          \<and> domain \<notin> set (domains (snd (DELETE cfg e req w)))) \<and>
   (fst (DELETE cfg e req w) = (200, SuccessOnly) \<and> auth_getUser e' = auth_getUser e
      \<longrightarrow> fst (PATCH cfg' e' req (snd (DELETE cfg e req w))) = (404, Err ''Domain not found''))"
proof (intro conjI impI)
  show "DELETE cfg (e\<lparr>cf_delete_throws := b\<rparr>) req w = DELETE cfg e req w"
    by (simp add: DELETE_def Let_def ensureUser_throws select_domain_throws
          delete_domain_throws cf_delete_fetch_throws
        split: prod.splits sum.splits query.splits option.splits bool.splits)
next
  assume a: "ensureUser e req w = (Inr user, w1) \<and> truthy (payload_field p_id req) \<and>
    select_domain e (or_default (payload_field p_id req) []) user w1 = Row (Some domain) \<and>
    \<not> store_error e DeleteDomain"
  then have m: "d_id domain = or_default (payload_field p_id req) [] \<and> user_id domain = user"
    using select_domain_Some [of e _ user w1 domain]
    by (metis (mono_tags, lifting) filter_eq_ConsD)
  show "fst (DELETE cfg e req w) = (200, SuccessOnly)"
    using a by (simp add: DELETE_def Let_def delete_domain_def)
  show "domain \<notin> set (domains (snd (DELETE cfg e req w)))"
    using a m by (simp add: DELETE_def Let_def delete_domain_def cf_delete_fetch_def)
next
  assume a: "fst (DELETE cfg e req w) = (200, SuccessOnly) \<and> auth_getUser e' = auth_getUser e"
  let ?w' = "snd (DELETE cfg e req w)"
  obtain user w1 where u: "ensureUser e req w = (Inr user, w1)"
    and i: "truthy (payload_field p_id req)"
    and gone: "filter (\<lambda>r. d_id r = or_default (payload_field p_id req) [] \<and> user_id r = user)
                (domains ?w') = []"
    using DELETE_success_cases a by blast
  have "ensureUser e' req ?w' =
          (Inr user, ?w'\<lparr>auth_calls := auth_calls ?w' @ [the (getTokenFromRequest req)]\<rparr>)"
    using ensureUser_env a u by blast
  then have "PATCH cfg' e' req ?w' = ((404, Err ''Domain not found''),
               ?w'\<lparr>auth_calls := auth_calls ?w' @ [the (getTokenFromRequest req)]\<rparr>)"
    using i gone by (intro PATCH_not_found) simp_all
  then show "fst (PATCH cfg' e' req ?w') = (404, Err ''Domain not found'')"
    by simp
qed

text \<open>
  C10. When the record has no provider hostname identifier, or the provider API
  token or the zone identifier is not configured, \<open>DELETE\<close> adds no provider
  call to the trace, raises no error for the missing configuration, removes the
  record and answers 200, provided the store performs the delete.
\<close>

text \<open>
  C6, witness: deleting the stored example domain while the provider call
  throws; the following refresh of the same id answers 404.
\<close>

theorem DELETE_terminal_provider_nonfatal_witness:
  "DELETE ex_config ((ex_env (Throws ''down''))\<lparr>cf_delete_throws := False\<rparr>)
       (ex_request (Some ''Bearer good'') ex_id_payload) (ex_world [ex_domain (Some ''cf1'')])
     = DELETE ex_config (ex_env (Throws ''down''))
         (ex_request (Some ''Bearer good'') ex_id_payload) (ex_world [ex_domain (Some ''cf1'')])
   \<and> fst (DELETE ex_config (ex_env (Throws ''down''))
           (ex_request (Some ''Bearer good'') ex_id_payload) (ex_world [ex_domain (Some ''cf1'')]))
       = (200, SuccessOnly)
   \<and> ex_domain (Some ''cf1'') \<notin> set (domains (snd (DELETE ex_config (ex_env (Throws ''down''))
           (ex_request (Some ''Bearer good'') ex_id_payload) (ex_world [ex_domain (Some ''cf1'')]))))
   \<and> fst (PATCH ex_config (ex_env (Throws ''down'')) (ex_request (Some ''Bearer good'') ex_id_payload)
            (snd (DELETE ex_config (ex_env (Throws ''down''))
              (ex_request (Some ''Bearer good'') ex_id_payload) (ex_world [ex_domain (Some ''cf1'')]))))
       = (404, Err ''Domain not found'')"
proof -
  let ?e = "ex_env (Throws ''down'')"
  let ?req = "ex_request (Some ''Bearer good'') ex_id_payload"
  let ?w = "ex_world [ex_domain (Some ''cf1'')]"
  let ?w1 = "?w\<lparr>auth_calls := [''good'']\<rparr>"
  have a: "ensureUser ?e ?req ?w = (Inr ''u1'', ?w1)"
    by code_simp
  have b: "truthy (payload_field p_id ?req)"
    by code_simp
  have c: "select_domain ?e (or_default (payload_field p_id ?req) []) ''u1'' ?w1
           = Row (Some (ex_domain (Some ''cf1'')))"
    by code_simp
  have d: "\<not> store_error ?e DeleteDomain"
    by (simp add: ex_env_def)
  note inst = DELETE_terminal_provider_nonfatal [where cfg = ex_config and e = ?e and b = False
      and req = ?req and w = ?w and user = "''u1''" and ?w1.0 = ?w1
      and domain = "ex_domain (Some ''cf1'')" and e' = ?e and cfg' = ex_config]
  have ok: "fst (DELETE ex_config ?e ?req ?w) = (200, SuccessOnly)"
    using inst a b c d by blast
  show ?thesis
    using inst a b c d ok by blast
qed

theorem DELETE_skips_provider:
  assumes "ensureUser e req w = (Inr user, w1)"
    and "truthy (payload_field p_id req)"
    and "select_domain e (or_default (payload_field p_id req) []) user w1 = Row (Some domain)"
    and "\<not> truthy (cf_custom_hostname_id domain) \<or> \<not> truthy (CLOUDFLARE_API_TOKEN cfg)
         \<or> \<not> truthy (CLOUDFLARE_ZONE_ID cfg)"
    and "\<not> store_error e DeleteDomain"
  shows "fst (DELETE cfg e req w) = (200, SuccessOnly)
         \<and> cf_calls (snd (DELETE cfg e req w)) = cf_calls w
         \<and> domains (snd (DELETE cfg e req w))
             = filter (\<lambda>r. \<not> (d_id r = or_default (payload_field p_id req) [] \<and> user_id r = user))
                 (domains w)
         \<and> domain \<notin> set (domains (snd (DELETE cfg e req w)))"
proof -
  have m: "d_id domain = or_default (payload_field p_id req) [] \<and> user_id domain = user"
    using select_domain_Some [OF assms(3)]
    by (metis (mono_tags, lifting) filter_eq_ConsD)
  have t: "domains w1 = domains w \<and> cf_calls w1 = cf_calls w"
    using assms(1) by (auto simp: ensureUser_def Let_def split: option.splits)
  have "DELETE cfg e req w =
          ((200, SuccessOnly),
           w1\<lparr>domains := filter (\<lambda>r. \<not> (d_id r = or_default (payload_field p_id req) []
                                          \<and> user_id r = user)) (domains w1)\<rparr>)"
    using assms by (auto simp: DELETE_def Let_def delete_domain_def)
  then show ?thesis using m t by simp
qed

text \<open>C10, witness: deleting the stored example domain in an unconfigured process.\<close>

theorem DELETE_skips_provider_witness:
  "fst (DELETE ex_config_unset (ex_env (Throws ''down''))
          (ex_request (Some ''Bearer good'') ex_id_payload) (ex_world [ex_domain (Some ''cf1'')]))
     = (200, SuccessOnly)
   \<and> cf_calls (snd (DELETE ex_config_unset (ex_env (Throws ''down''))
          (ex_request (Some ''Bearer good'') ex_id_payload) (ex_world [ex_domain (Some ''cf1'')])))
     = cf_calls (ex_world [ex_domain (Some ''cf1'')])
   \<and> domains (snd (DELETE ex_config_unset (ex_env (Throws ''down''))
          (ex_request (Some ''Bearer good'') ex_id_payload) (ex_world [ex_domain (Some ''cf1'')])))
     = filter (\<lambda>r. \<not> (d_id r = or_default (payload_field p_id
                                    (ex_request (Some ''Bearer good'') ex_id_payload)) []
                       \<and> user_id r = ''u1''))
         (domains (ex_world [ex_domain (Some ''cf1'')]))
   \<and> ex_domain (Some ''cf1'') \<notin> set (domains (snd (DELETE ex_config_unset (ex_env (Throws ''down''))
          (ex_request (Some ''Bearer good'') ex_id_payload) (ex_world [ex_domain (Some ''cf1'')]))))"
proof -
  let ?e = "ex_env (Throws ''down'')"
  let ?req = "ex_request (Some ''Bearer good'') ex_id_payload"
  let ?w = "ex_world [ex_domain (Some ''cf1'')]"
  let ?w1 = "?w\<lparr>auth_calls := [''good'']\<rparr>"
  have a: "ensureUser ?e ?req ?w = (Inr ''u1'', ?w1)"
    by code_simp
  have b: "truthy (payload_field p_id ?req)"
    by code_simp
  have c: "select_domain ?e (or_default (payload_field p_id ?req) []) ''u1'' ?w1
           = Row (Some (ex_domain (Some ''cf1'')))"
    by code_simp
  have d: "\<not> truthy (cf_custom_hostname_id (ex_domain (Some ''cf1'')))
           \<or> \<not> truthy (CLOUDFLARE_API_TOKEN ex_config_unset)
           \<or> \<not> truthy (CLOUDFLARE_ZONE_ID ex_config_unset)"
    by (simp add: ex_config_unset_def truthy_def)
  have f: "\<not> store_error ?e DeleteDomain"
    by (simp add: ex_env_def)
  show ?thesis
    by (rule DELETE_skips_provider [OF a b c d f])
qed

end
